theory Spec2Isabelle
  imports Complex_Main "HOL-Library.Char_ord" "HOL-Library.List_Lexorder" "HOL-Library.AList"
    "HOL-Library.Multiset"
begin

section \<open>The dashboard page \<^verbatim>\<open>src/frontend/src/pages/data/index.vue\<close>\<close>

text \<open>
  The page keeps its data in Vue refs and module variables, fetches JSON from a remote
  API and hands chart options to a charting library. The embedding below follows the
  script block of the page:
  \<^item> the refs and module variables are the fields of the record \<open>page_state\<close>, and every
    function of the script that writes a ref takes the state and returns the new one;
  \<^item> JavaScript numbers are modelled as \<^typ>\<open>real\<close> (no rounding error, no NaN unless
    stated), strings as byte lists holding UTF-8, objects used as dictionaries as
    association lists in insertion order;
  \<^item> a \<^verbatim>\<open>fetch\<close> is an argument of the function that issues it: the outcome of the
    request, given by the caller;
  \<^item> \<^verbatim>\<open>Math.random()\<close> is an argument as well: the sequence of the values the
    successive calls return.

  Logging to the console, the scheduling of the chart updates (\<^verbatim>\<open>nextTick\<close>,
  \<^verbatim>\<open>setTimeout\<close>), the resize handler and the parts of the chart options that do not
  depend on the data are left out. A function that is started without \<^verbatim>\<open>await\<close> is
  modelled by the state after it has finished.
\<close>

subsection \<open>Library functions of the language\<close>

definition digit_char :: "nat \<Rightarrow> char" where
  "digit_char d = ''0123456789'' ! d"

text \<open>Decimal digits of a natural number, as a template literal prints an integer.\<close>

function showNat :: "nat \<Rightarrow> string" where
  "showNat n = (if n < 10 then [digit_char n] else showNat (n div 10) @ [digit_char (n mod 10)])"
  by pat_completeness auto
termination
  by (relation "measure id") auto

declare showNat.simps [simp del]

definition showInt :: "int \<Rightarrow> string" where
  "showInt i = (if i < 0 then ''-'' @ showNat (nat (- i)) else showNat (nat i))"

text \<open>
  \<^verbatim>\<open>Number.prototype.toFixed(f)\<close> on a finite number below \<open>10^21\<close> in magnitude: the sign,
  then the integer \<open>n\<close> for which \<open>n / 10^f\<close> is closest to the magnitude (the larger one
  on a tie), printed with \<open>f\<close> digits after the point.
\<close>

definition toFixed :: "real \<Rightarrow> nat \<Rightarrow> string" where
  "toFixed x f =
     (let s = (if x < 0 then ''-'' else '''');
          n = nat \<lfloor>\<bar>x\<bar> * 10 ^ f + 1 / 2\<rfloor>;
          m = showNat n;
          m' = (if length m \<le> f then replicate (f + 1 - length m) (CHR ''0'') @ m else m);
          k = length m'
      in s @ (if f = 0 then m' else take (k - f) m' @ ''.'' @ drop (k - f) m'))"

text \<open>
  \<^verbatim>\<open>Array.prototype.slice(start)\<close> with one argument: a negative start counts from the
  end and is clamped at the beginning, a positive one is clamped at the length.
\<close>

definition slice_from :: "int \<Rightarrow> 'a list \<Rightarrow> 'a list" where
  "slice_from start xs =
     (let len = int (length xs);
          k = (if start < 0 then max (len + start) 0 else min start len)
      in drop (nat k) xs)"

text \<open>
  \<^verbatim>\<open>Array.prototype.sort(cmp)\<close>: a stable sort; \<open>x\<close> goes before \<open>y\<close> when
  \<open>cmp x y \<le> 0\<close> and \<open>x\<close> came first. Written as the insertion sort that this fixes.
\<close>

fun insert_by :: "('a \<Rightarrow> 'a \<Rightarrow> real) \<Rightarrow> 'a \<Rightarrow> 'a list \<Rightarrow> 'a list" where
  "insert_by cmp x [] = [x]"
| "insert_by cmp x (y # ys) = (if cmp x y \<le> 0 then x # y # ys else y # insert_by cmp x ys)"

definition sort_by :: "('a \<Rightarrow> 'a \<Rightarrow> real) \<Rightarrow> 'a list \<Rightarrow> 'a list" where
  "sort_by cmp xs = foldr (insert_by cmp) xs []"

subsection \<open>Data of the page\<close>

text \<open>One row of the industry table, as the analysis endpoint sends it.\<close>

record industry_summary =
  industry :: string
  stock_count :: nat
  avg_change :: real
  avg_volatility :: real

text \<open>
  The field \<^verbatim>\<open>change_percent\<close> of a record: missing (reading it gives
  \<^verbatim>\<open>undefined\<close>), \<^verbatim>\<open>null\<close>, or a number.
\<close>

datatype percent = Missing | Null | Percent real

text \<open>
  One day of one stock. A record without a date has the empty string here (both are
  falsy, and neither equals a collected date).
\<close>

record trend_item =
  date :: string
  close :: real
  change_percent :: percent

text \<open>
  The trend of one industry: \<^verbatim>\<open>stock_trends\<close> maps a stock code to its days; \<open>None\<close>
  when the field is missing.
\<close>

record industry_trend =
  trend_industry :: string
  trend_stock_count :: nat
  stock_trends :: "(string \<times> trend_item list) list option"

text \<open>A parsed JSON value, for the bodies the page stores without looking inside.\<close>

datatype json = JNull | JBool bool | JNum real | JStr string
  | JArr "json list" | JObj "(string \<times> json) list"

text \<open>
  The value of an identifier in scope: a string, a number, or an object (an array, a
  function, a ref), which the model does not look into.
\<close>

datatype scope_value = StrVal string | NumVal real | ObjVal

text \<open>
  A template literal is kept as its parts: literal text, and the values interpolated
  into it that the model does not print.
\<close>

datatype text_part = Lit string | Interp scope_value

text \<open>The result that \<^verbatim>\<open>analyzeIndustry\<close> builds for an industry.\<close>

record analysis =
  a_industry :: string
  a_period :: string
  a_stockCount :: nat
  a_avgChange :: real
  a_volatility :: real
  a_positiveDays :: nat
  a_negativeDays :: nat
  a_positiveRate :: scope_value
  a_dailyPerformance :: "(string \<times> real) list"
  a_summary :: "text_part list"

text \<open>
  What \<^verbatim>\<open>industryAnalysisResult\<close> holds: an industry with an error message, the
  result of \<^verbatim>\<open>analyzeIndustry\<close>, the body of the language-model endpoint for one
  industry, or the one for all industries under their common name.
\<close>

datatype analysis_result =
    AnalysisError string string
  | LocalAnalysis analysis
  | LLMAnalysis json
  | LLMAllAnalysis string json

record page_state =
  industryAnalysis :: "industry_summary list"
  industryTrend :: "industry_trend option"
  allIndustryTrends :: "(string \<times> industry_trend) list"
  loading :: bool
  error :: "string option"
  daysToShow :: int
  industryFilter :: string
  industryAnalysisResult :: "analysis_result option"
  analyzingIndustry :: string
  analysisLoading :: bool
  industryCurrentPage :: nat
  industryPageSize :: nat
  totalIndustries :: nat
  industryChart :: bool
  industryChartRef :: bool
  marketHotmapChart :: bool
  marketHotmapRef :: bool
  hotmapLoading :: bool

subsection \<open>The line chart: \<^verbatim>\<open>updateIndustryChart\<close>\<close>

record line_series =
  series_name :: string
  series_data :: "string list"
  series_color :: string

record chart_option =
  xAxis_data :: "string list"
  legend_data :: "string list"
  series :: "line_series list"

definition colors :: "string list" where
  "colors = [''#67c23a'', ''#f56c6c'', ''#409eff'', ''#e6a23c'', ''#909399'']"

definition hasRealData :: "page_state \<Rightarrow> bool" where
  "hasRealData st = (allIndustryTrends st \<noteq> [])"

text \<open>
  The industries that get a series: the page, or the first three after sorting. (The
  function also filters the values of \<^verbatim>\<open>allIndustryTrends\<close> into
  \<^verbatim>\<open>filteredIndustries\<close>, which it never reads afterwards.)
\<close>

definition industriesToShow :: "page_state \<Rightarrow> industry_summary list" where
  "industriesToShow st =
     (if industryFilter st = ''top3'' \<or> industryFilter st = ''bottom3''
      then take 3 (sort_by (\<lambda>a b. if industryFilter st = ''top3''
                                   then avg_change b - avg_change a
                                   else avg_change a - avg_change b) (industryAnalysis st))
      else industryAnalysis st)"

text \<open>\<^verbatim>\<open>trend && trend.stock_trends\<close> for the trend stored under the industry's name.\<close>

definition trend_of :: "page_state \<Rightarrow> industry_summary \<Rightarrow> (string \<times> trend_item list) list option" where
  "trend_of st ind =
     (case map_of (allIndustryTrends st) (industry ind) of
        None \<Rightarrow> None
      | Some trend \<Rightarrow> stock_trends trend)"

text \<open>The dates added to the set \<^verbatim>\<open>allDataDates\<close>, in the order of the additions.\<close>

definition allDataDates :: "page_state \<Rightarrow> string list" where
  "allDataDates st =
     concat (map (\<lambda>ind. case trend_of st ind of
                           None \<Rightarrow> []
                         | Some sts \<Rightarrow> concat (map (\<lambda>stockData. filter (\<lambda>d. d \<noteq> '''') (map date stockData))
                                                   (map snd sts)))
                 (industriesToShow st))"

definition recentDates :: "page_state \<Rightarrow> string list" where
  "recentDates st = slice_from (- daysToShow st) (sort (remdups (allDataDates st)))"

text \<open>
  The inner loop over the stocks of one industry for one date: \<^verbatim>\<open>totalChange\<close> and
  \<^verbatim>\<open>count\<close> are the accumulator. The test is \<^verbatim>\<open>!== undefined\<close>, so a
  \<^verbatim>\<open>null\<close> is counted, and \<^verbatim>\<open>+=\<close> adds it as 0.
\<close>

definition add_stock :: "string \<Rightarrow> trend_item list \<Rightarrow> real \<times> nat \<Rightarrow> real \<times> nat" where
  "add_stock d stockData acc =
     (case find (\<lambda>item. date item = d) stockData of
        None \<Rightarrow> acc
      | Some stockDateData \<Rightarrow>
          (case change_percent stockDateData of
             Missing \<Rightarrow> acc
           | Null \<Rightarrow> (fst acc + 0, snd acc + 1)
           | Percent c \<Rightarrow> (fst acc + c, snd acc + 1)))"

definition day_totals :: "(string \<times> trend_item list) list \<Rightarrow> string \<Rightarrow> real \<times> nat" where
  "day_totals sts d = fold (add_stock d) (map snd sts) (0, 0)"

definition avgChange :: "(string \<times> trend_item list) list \<Rightarrow> string \<Rightarrow> string" where
  "avgChange sts d =
     (let (totalChange, count) = day_totals sts d
      in if count > 0 then toFixed (totalChange / real count) 2 else ''0'')"

text \<open>The random fluctuation added to a simulated point: \<^verbatim>\<open>(Math.random() - 0.5) * 2\<close>.\<close>

definition randomFactor :: "real \<Rightarrow> real" where
  "randomFactor r = (r - 0.5) * 2"

text \<open>
  The loop over the industries to show, with the index of the industry and the number
  \<open>k\<close> of calls of \<^verbatim>\<open>Math.random()\<close> made so far.
\<close>

fun build_series ::
  "(nat \<Rightarrow> real) \<Rightarrow> page_state \<Rightarrow> string list \<Rightarrow> nat \<Rightarrow> nat \<Rightarrow> industry_summary list \<Rightarrow> line_series list"
where
  "build_series rnd st dates index k [] = []"
| "build_series rnd st dates index k (ind # rest) =
     (case (if hasRealData st then trend_of st ind else None) of
        Some sts \<Rightarrow>
          \<lparr>series_name = industry ind,
           series_data = map (avgChange sts) dates,
           series_color = colors ! (index mod length colors)\<rparr>
          # build_series rnd st dates (index + 1) k rest
      | None \<Rightarrow>
          \<lparr>series_name = industry ind,
           series_data = (let baseChange = avg_change ind * 100
                          in map (\<lambda>j. toFixed (baseChange + randomFactor (rnd (k + j))) 2)
                                 [0..<length dates]),
           series_color = colors ! (index mod length colors)\<rparr>
          # build_series rnd st dates (index + 1) (k + length dates) rest)"

definition chartSeries :: "(nat \<Rightarrow> real) \<Rightarrow> page_state \<Rightarrow> line_series list" where
  "chartSeries rnd st = build_series rnd st (recentDates st) 0 0 (industriesToShow st)"

text \<open>
  The function returns the state (the chart instance is created when the container is
  there) and the option handed to \<^verbatim>\<open>setOption\<close>, \<open>None\<close> when it returns before.
\<close>

definition updateIndustryChart :: "(nat \<Rightarrow> real) \<Rightarrow> page_state \<Rightarrow> page_state \<times> chart_option option" where
  "updateIndustryChart rnd st =
     (if industryAnalysis st = [] then (st, None)
      else let st1 = (if \<not> industryChart st \<and> industryChartRef st
                      then st\<lparr>industryChart := True\<rparr> else st)
           in if \<not> industryChart st1 then (st1, None)
              else (st1, Some \<lparr>xAxis_data = recentDates st,
                               legend_data = map series_name (chartSeries rnd st),
                               series = chartSeries rnd st\<rparr>))"

subsection \<open>Reading the chart\<close>

text \<open>The function charts when the page has rows and a chart instance or its container exists.\<close>

definition chart_ready :: "page_state \<Rightarrow> bool" where
  "chart_ready st = (industryAnalysis st \<noteq> [] \<and> (industryChart st \<or> industryChartRef st))"

text \<open>The value plotted for the \<open>i\<close>-th series on the \<open>j\<close>-th date, when there is one.\<close>

definition plotted :: "(nat \<Rightarrow> real) \<Rightarrow> page_state \<Rightarrow> nat \<Rightarrow> nat \<Rightarrow> string option" where
  "plotted rnd st i j =
     (case snd (updateIndustryChart rnd st) of
        None \<Rightarrow> None
      | Some opt \<Rightarrow>
          if i < length (series opt) \<and> j < length (series_data (series opt ! i))
          then Some (series_data (series opt ! i) ! j) else None)"

text \<open>The names of the charted industries, in the order of the series.\<close>

definition charted :: "(nat \<Rightarrow> real) \<Rightarrow> page_state \<Rightarrow> string list option" where
  "charted rnd st = map_option (\<lambda>opt. map series_name (series opt)) (snd (updateIndustryChart rnd st))"

text \<open>The industries of the page that the filter leaves out.\<close>

definition notShown :: "page_state \<Rightarrow> industry_summary list" where
  "notShown st =
     (if industryFilter st = ''top3'' then drop 3 (sort_key (\<lambda>i. - avg_change i) (industryAnalysis st))
      else if industryFilter st = ''bottom3'' then drop 3 (sort_key avg_change (industryAnalysis st))
      else [])"

text \<open>The number a defined \<^verbatim>\<open>change_percent\<close> stands for in a sum: 0 for \<^verbatim>\<open>null\<close>.\<close>

fun percent_value :: "percent \<Rightarrow> real option" where
  "percent_value Missing = None"
| "percent_value Null = Some 0"
| "percent_value (Percent c) = Some c"

text \<open>
  What one stock contributes to a date: the \<^verbatim>\<open>change_percent\<close> of its first record
  of that date, if that record has one. \<open>contributions\<close> lists them over the stocks of
  an industry.
\<close>

definition first_change :: "string \<Rightarrow> trend_item list \<Rightarrow> real option" where
  "first_change d stockData =
     (case find (\<lambda>item. date item = d) stockData of
        None \<Rightarrow> None
      | Some item \<Rightarrow> percent_value (change_percent item))"

definition contributions :: "(string \<times> trend_item list) list \<Rightarrow> string \<Rightarrow> real list" where
  "contributions sts d = List.map_filter (first_change d) (map snd sts)"

text \<open>
  The reading "the stock has a record for that date with \<^verbatim>\<open>change_percent\<close> defined":
  the value of the first such record, whatever comes before it.
\<close>

definition any_change :: "string \<Rightarrow> trend_item list \<Rightarrow> real option" where
  "any_change d stockData =
     (case filter (\<lambda>item. date item = d \<and> change_percent item \<noteq> Missing) stockData of
        [] \<Rightarrow> None
      | item # _ \<Rightarrow> percent_value (change_percent item))"

definition stated_contributions :: "(string \<times> trend_item list) list \<Rightarrow> string \<Rightarrow> real list" where
  "stated_contributions sts d = List.map_filter (any_change d) (map snd sts)"


definition zero_random :: "nat \<Rightarrow> real" where
  "zero_random n = 0"


subsection \<open>A small page for the examples\<close>

definition mk_item :: "string \<Rightarrow> percent \<Rightarrow> trend_item" where
  "mk_item d c = \<lparr>date = d, close = 10, change_percent = c\<rparr>"

definition bank_trends :: "(string \<times> trend_item list) list" where
  "bank_trends =
     [(''000001'', [mk_item ''2024-01-02'' Missing, mk_item ''2024-01-02'' (Percent 4),
                    mk_item ''2024-01-03'' (Percent 1)]),
      (''600036'', [mk_item ''2024-01-02'' (Percent 2)])]"

definition steel_trends :: "(string \<times> trend_item list) list" where
  "steel_trends = [(''600019'', [mk_item ''2024-01-03'' (Percent (- 1.5))])]"

definition demo_page :: "industry_summary list" where
  "demo_page =
     [\<lparr>industry = ''Bank'', stock_count = 2, avg_change = 0.015, avg_volatility = 0.2\<rparr>,
      \<lparr>industry = ''Steel'', stock_count = 1, avg_change = - 0.02, avg_volatility = 0.3\<rparr>,
      \<lparr>industry = ''Coal'', stock_count = 5, avg_change = 0.003, avg_volatility = 0.1\<rparr>,
      \<lparr>industry = ''Media'', stock_count = 7, avg_change = 0.015, avg_volatility = 0.1\<rparr>]"

definition demo_state :: page_state where
  "demo_state =
     \<lparr>industryAnalysis = demo_page,
      industryTrend = None,
      allIndustryTrends =
        [(''Bank'', \<lparr>trend_industry = ''Bank'', trend_stock_count = 2, stock_trends = Some bank_trends\<rparr>),
         (''Steel'', \<lparr>trend_industry = ''Steel'', trend_stock_count = 1, stock_trends = Some steel_trends\<rparr>)],
      loading = False, error = None, daysToShow = 90, industryFilter = ''all'',
      industryAnalysisResult = None, analyzingIndustry = '''', analysisLoading = False,
      industryCurrentPage = 1, industryPageSize = 20, totalIndustries = 4,
      industryChart = False, industryChartRef = True,
      marketHotmapChart = False, marketHotmapRef = True, hotmapLoading = False\<rparr>"

definition demo_top3 :: page_state where
  "demo_top3 = demo_state\<lparr>industryFilter := ''top3''\<rparr>"

definition demo_bottom3 :: page_state where
  "demo_bottom3 = demo_state\<lparr>industryFilter := ''bottom3''\<rparr>"

subsection \<open>Requests\<close>

text \<open>
  The outcome of one \<^verbatim>\<open>fetch\<close>: the promise rejects with an error of the given message,
  or a response arrives with a status and a body, and \<^verbatim>\<open>response.json()\<close> either
  rejects with a message or gives the parsed body.
\<close>

datatype 'a fetched = Rejected string | Response nat "string + 'a"

definition ok :: "nat \<Rightarrow> bool" where
  "ok status = (200 \<le> status \<and> status \<le> 299)"

text \<open>
  The steps every request of the page starts with: await the fetch, throw on a status
  that is not ok, await the body. \<open>Inl\<close> carries the message of the error thrown.
\<close>

definition fetch_json :: "'a fetched \<Rightarrow> string + 'a" where
  "fetch_json r =
     (case r of
        Rejected message \<Rightarrow> Inl message
      | Response status parsed \<Rightarrow>
          if \<not> ok status then Inl (''HTTP error! status: '' @ showNat status) else parsed)"

text \<open>The requests a function issues, by endpoint and query parameters.\<close>

datatype request =
    AnalysisRequest nat nat
  | TrendRequest string
  | HierarchyRequest
  | LLMRequest string int
  | LLMAllRequest int

text \<open>
  The body of the analysis endpoint, an object: \<open>body_data\<close> is its field
  \<^verbatim>\<open>data\<close> when that is an array, \<open>body_total\<close> its field \<^verbatim>\<open>total\<close> when there is one.
\<close>

record analysis_body =
  body_data :: "industry_summary list option"
  body_total :: "nat option"

text \<open>
  The messages of the page are Chinese text and are written here as their UTF-8 bytes.
  Each of the four below begins a message and is followed by the message of the error
  caught: "getting the industry analysis failed: ", "getting the industry trend
  failed: ", "getting the industry trend data failed: " and "the analysis by the large
  model failed: ".
\<close>

definition analysisFailed :: string where
  "analysisFailed =
     [CHR 0xE8, CHR 0x8E, CHR 0xB7, CHR 0xE5, CHR 0x8F, CHR 0x96, CHR 0xE8, CHR 0xA1,
     CHR 0x8C, CHR 0xE4, CHR 0xB8, CHR 0x9A, CHR 0xE5, CHR 0x88, CHR 0x86, CHR 0xE6,
     CHR 0x9E, CHR 0x90, CHR 0xE5, CHR 0xA4, CHR 0xB1, CHR 0xE8, CHR 0xB4,
     CHR 0xA5] @ '': ''"


definition trendsFailed :: string where
  "trendsFailed =
     [CHR 0xE8, CHR 0x8E, CHR 0xB7, CHR 0xE5, CHR 0x8F, CHR 0x96, CHR 0xE8, CHR 0xA1,
     CHR 0x8C, CHR 0xE4, CHR 0xB8, CHR 0x9A, CHR 0xE8, CHR 0xB6, CHR 0x8B, CHR 0xE5,
     CHR 0x8A, CHR 0xBF, CHR 0xE6, CHR 0x95, CHR 0xB0, CHR 0xE6, CHR 0x8D, CHR 0xAE,
     CHR 0xE5, CHR 0xA4, CHR 0xB1, CHR 0xE8, CHR 0xB4, CHR 0xA5] @ '': ''"



subsection \<open>\<^verbatim>\<open>getAllIndustryTrends\<close>\<close>

text \<open>
  One of the parallel requests. A rejected fetch and a status that is not ok are caught
  and give \<^verbatim>\<open>null\<close>. The body promise is returned without \<^verbatim>\<open>await\<close>, so its
  rejection is the rejection of the request's promise.
\<close>

definition trendPromise :: "industry_trend fetched \<Rightarrow> string + industry_trend option" where
  "trendPromise r =
     (case r of
        Rejected message \<Rightarrow> Inr None
      | Response status parsed \<Rightarrow>
          if \<not> ok status then Inr None
          else (case parsed of Inl message \<Rightarrow> Inl message | Inr trend \<Rightarrow> Inr (Some trend)))"

text \<open>
  \<^verbatim>\<open>Promise.all\<close>: the values in order, or a rejection. When several promises reject,
  the model takes the reason of the first in the list.
\<close>

fun promise_all :: "(string + 'a) list \<Rightarrow> string + 'a list" where
  "promise_all [] = Inr []"
| "promise_all (p # ps) =
     (case p of
        Inl message \<Rightarrow> Inl message
      | Inr v \<Rightarrow> (case promise_all ps of Inl message \<Rightarrow> Inl message | Inr vs \<Rightarrow> Inr (v # vs)))"

text \<open>
  The loop that fills \<^verbatim>\<open>trendsData\<close>: a trend that is there and has \<^verbatim>\<open>stock_trends\<close>
  is stored under the name of the industry at its index, with that name as its
  \<^verbatim>\<open>industry\<close> field.
\<close>

definition store_trend ::
  "string \<times> industry_trend option \<Rightarrow> (string \<times> industry_trend) list \<Rightarrow> (string \<times> industry_trend) list"
where
  "store_trend p trendsData =
     (case snd p of
        None \<Rightarrow> trendsData
      | Some trend \<Rightarrow>
          if stock_trends trend \<noteq> None
          then AList.update (fst p) (trend\<lparr>trend_industry := fst p\<rparr>) trendsData
          else trendsData)"

definition collect_trends ::
  "string list \<Rightarrow> industry_trend option list \<Rightarrow> (string \<times> industry_trend) list" where
  "collect_trends industries trends = fold store_trend (zip industries trends) []"

text \<open>
  \<open>trendResps i\<close> is the outcome of the request for the industry at index \<open>i\<close>. The
  function returns the new state and the requests it issued.
\<close>

definition getAllIndustryTrends ::
  "(nat \<Rightarrow> industry_trend fetched) \<Rightarrow> page_state \<Rightarrow> page_state \<times> request list" where
  "getAllIndustryTrends trendResps st =
     (let st1 = st\<lparr>loading := True, error := None\<rparr>
      in if industryAnalysis st1 \<noteq> []
         then let industries = map industry (industryAnalysis st1);
                  trendPromises = map (\<lambda>i. trendPromise (trendResps i)) [0..<length industries]
              in (case promise_all trendPromises of
                    Inr trends \<Rightarrow>
                      (st1\<lparr>allIndustryTrends := collect_trends industries trends, loading := False\<rparr>,
                       map TrendRequest industries)
                  | Inl message \<Rightarrow>
                      (st1\<lparr>error := Some (trendsFailed @ message), loading := False\<rparr>,
                       map TrendRequest industries))
         else (st1\<lparr>loading := False\<rparr>, []))"

subsection \<open>\<^verbatim>\<open>getIndustryAnalysis\<close> and \<^verbatim>\<open>getIndustryTrend\<close>\<close>

text \<open>
  \<^verbatim>\<open>getIndustryAnalysis\<close> starts \<^verbatim>\<open>getAllIndustryTrends\<close> without waiting for it; the
  trends arrive after the function has finished. The state returned is the one after
  both, and \<^verbatim>\<open>loading\<close> is false at the end either way.
\<close>

definition getIndustryAnalysis ::
  "analysis_body fetched \<Rightarrow> (nat \<Rightarrow> industry_trend fetched) \<Rightarrow> page_state \<Rightarrow> page_state \<times> request list"
where
  "getIndustryAnalysis resp trendResps st =
     (let st1 = st\<lparr>loading := True, error := None\<rparr>;
          req = AnalysisRequest (industryCurrentPage st) (industryPageSize st)
      in case fetch_json resp of
           Inr data \<Rightarrow>
             (let st2 = st1\<lparr>industryAnalysis := (case body_data data of Some rows \<Rightarrow> rows | None \<Rightarrow> []),
                             totalIndustries := (case body_total data of Some t \<Rightarrow> t | None \<Rightarrow> 0)\<rparr>;
                  st3 = st2\<lparr>loading := False\<rparr>
              in if industryAnalysis st3 \<noteq> []
                 then (fst (getAllIndustryTrends trendResps st3),
                       req # snd (getAllIndustryTrends trendResps st3))
                 else (st3, [req]))
         | Inl message \<Rightarrow>
             (st1\<lparr>error := Some (analysisFailed @ message),
                  industryAnalysis := [], totalIndustries := 0, loading := False\<rparr>,
              [req]))"


text \<open>
  The table of the template shows \<^verbatim>\<open>industryAnalysis\<close>, one row each, unless the page
  is loading.
\<close>

definition tableRows :: "page_state \<Rightarrow> industry_summary list" where
  "tableRows st = (if loading st then [] else industryAnalysis st)"

subsection \<open>The analysis by the language model\<close>



subsection \<open>Reading the outcome of the trend requests\<close>



definition bank_body :: industry_trend where
  "bank_body = \<lparr>trend_industry = ''bank'', trend_stock_count = 2, stock_trends = Some bank_trends\<rparr>"



definition no_network :: "nat \<Rightarrow> industry_trend fetched" where
  "no_network i = Rejected ''Failed to fetch''"

definition broken_body_resps :: "nat \<Rightarrow> industry_trend fetched" where
  "broken_body_resps i =
     (if i = 1 then Response 200 (Inl ''Unexpected token N in JSON'') else Response 200 (Inr bank_body))"


definition demo_analysis_body :: analysis_body where
  "demo_analysis_body = \<lparr>body_data = Some demo_page, body_total = Some 31\<rparr>"

definition no_rows_body :: analysis_body where
  "no_rows_body = \<lparr>body_data = None, body_total = None\<rparr>"

definition initial_state :: page_state where
  "initial_state =
     \<lparr>industryAnalysis = [], industryTrend = None, allIndustryTrends = [],
      loading = False, error = None, daysToShow = 90, industryFilter = ''top3'',
      industryAnalysisResult = None, analyzingIndustry = '''', analysisLoading = False,
      industryCurrentPage = 1, industryPageSize = 20, totalIndustries = 0,
      industryChart = False, industryChartRef = False,
      marketHotmapChart = False, marketHotmapRef = False, hotmapLoading = False\<rparr>"

subsection \<open>The treemap: values of the language\<close>

text \<open>
  The values that the numeric fields of the hierarchy endpoint and the entries of a
  node's \<^verbatim>\<open>value\<close> array can hold: a number, an array of such values, a missing field
  or hole, and NaN, which arithmetic on them can give.
\<close>

datatype jsval = Undefined | NaN | Num real | Arr "jsval list"

datatype js_error = TypeError | ReferenceError string

fun truthy :: "jsval \<Rightarrow> bool" where
  "truthy Undefined = False"
| "truthy NaN = False"
| "truthy (Num x) = (x \<noteq> 0)"
| "truthy (Arr xs) = True"

text \<open>\<^verbatim>\<open>a || b || ... || d\<close>: the first truthy operand, the last operand when none is.\<close>

fun or_chain :: "jsval list \<Rightarrow> jsval \<Rightarrow> jsval" where
  "or_chain [] d = d"
| "or_chain (x # xs) d = (if truthy x then x else or_chain xs d)"

text \<open>The same for names: a missing name and the empty string are falsy.\<close>

fun or_name :: "string option list \<Rightarrow> string \<Rightarrow> string" where
  "or_name [] d = d"
| "or_name (None # xs) d = or_name xs d"
| "or_name (Some s # xs) d = (if s \<noteq> '''' then s else or_name xs d)"

text \<open>\<^verbatim>\<open>v?.[i]\<close>: the element of an array, undefined for a number and for a missing value.\<close>

fun element :: "jsval \<Rightarrow> nat \<Rightarrow> jsval" where
  "element (Arr xs) i = (if i < length xs then xs ! i else Undefined)"
| "element v i = Undefined"

text \<open>Reading and writing an array by index: a write past the end extends it with holes.\<close>

definition get_index :: "jsval list \<Rightarrow> nat \<Rightarrow> jsval" where
  "get_index xs i = (if i < length xs then xs ! i else Undefined)"

definition set_index :: "jsval list \<Rightarrow> nat \<Rightarrow> jsval \<Rightarrow> jsval list" where
  "set_index xs i v =
     (if i < length xs then xs[i := v] else xs @ replicate (i - length xs) Undefined @ [v])"

text \<open>
  The conversion to a number that \<^verbatim>\<open>*\<close> applies to an operand. An array is converted
  through its string: the empty array and an array of one hole give 0, an array of one
  value gives what the value gives, a longer array gives NaN.
\<close>

fun toNumber :: "jsval \<Rightarrow> jsval" where
  "toNumber Undefined = NaN"
| "toNumber NaN = NaN"
| "toNumber (Num x) = Num x"
| "toNumber (Arr []) = Num 0"
| "toNumber (Arr [Undefined]) = Num 0"
| "toNumber (Arr [x]) = toNumber x"
| "toNumber (Arr (x # y # zs)) = NaN"

definition times :: "jsval \<Rightarrow> real \<Rightarrow> jsval" where
  "times v c = (case toNumber v of Num x \<Rightarrow> Num (x * c) | _ \<Rightarrow> NaN)"

subsection \<open>The treemap: data\<close>

text \<open>
  A stock and an industry as the hierarchy endpoint sends them, with the fields the page
  reads. \<open>i_children\<close> and \<open>i_stocks\<close> are there when the field is an array; an element
  of such an array is \<open>None\<close> when it is \<^verbatim>\<open>null\<close>.
\<close>

record api_stock =
  s_name :: "string option"
  s_stock_name :: "string option"
  s_value :: jsval
  s_market_cap :: jsval
  s_marketCap :: jsval
  s_increase :: jsval
  s_change :: jsval

record api_industry =
  i_name :: "string option"
  i_industry :: "string option"
  i_value :: jsval
  i_market_cap :: jsval
  i_marketCap :: jsval
  i_stock_count :: jsval
  i_total_stock_count :: jsval
  i_stockCount :: jsval
  i_increase :: jsval
  i_change :: jsval
  i_children :: "api_stock option list option"
  i_stocks :: "api_stock option list option"

text \<open>
  The body of the hierarchy endpoint, by the cases the page tells apart: an object whose
  \<^verbatim>\<open>data\<close> is an array, an array, another object, \<^verbatim>\<open>null\<close>, and a number, string or
  boolean.
\<close>

datatype hierarchy_body =
    Wrapped "api_industry option list"
  | Plain "api_industry option list"
  | Single api_industry
  | NullBody
  | Primitive

text \<open>The nodes of the treemap.\<close>

record stock_node =
  child_name :: string
  child_value :: "jsval list option"

record hotmap_node =
  node_name :: string
  node_value :: "jsval list"
  node_stock_count :: jsval
  node_children :: "stock_node list"

text \<open>
  The names used when the data has none: "unknown industry" and "unknown stock".
\<close>

definition unknownIndustry :: string where
  "unknownIndustry =
     [CHR 0xE6, CHR 0x9C, CHR 0xAA, CHR 0xE7, CHR 0x9F, CHR 0xA5, CHR 0xE8, CHR 0xA1,
     CHR 0x8C, CHR 0xE4, CHR 0xB8, CHR 0x9A]"

definition unknownStock :: string where
  "unknownStock =
     [CHR 0xE6, CHR 0x9C, CHR 0xAA, CHR 0xE7, CHR 0x9F, CHR 0xA5, CHR 0xE8, CHR 0x82,
     CHR 0xA1, CHR 0xE7, CHR 0xA5, CHR 0xA8]"

subsection \<open>\<^verbatim>\<open>getIndustryStockHierarchy\<close> and \<^verbatim>\<open>convertApiDataToChartFormat\<close>\<close>

text \<open>
  Every error is caught and gives the empty list, also the one of reading a field of
  \<^verbatim>\<open>null\<close>.
\<close>

definition getIndustryStockHierarchy :: "hierarchy_body fetched \<Rightarrow> api_industry option list" where
  "getIndustryStockHierarchy resp =
     (case fetch_json resp of
        Inl message \<Rightarrow> []
      | Inr data \<Rightarrow>
          (case data of
             Wrapped industryData \<Rightarrow> industryData
           | Plain industryData \<Rightarrow> industryData
           | Single obj \<Rightarrow> [Some obj]
           | NullBody \<Rightarrow> []
           | Primitive \<Rightarrow> []))"

definition convertStock :: "api_stock \<Rightarrow> stock_node" where
  "convertStock stock =
     \<lparr>child_name = or_name [s_name stock, s_stock_name stock] unknownStock,
      child_value = Some
        [or_chain [s_value stock, s_market_cap stock, s_marketCap stock, element (s_value stock) 0] (Num 0),
         Num 1,
         or_chain [s_increase stock, s_change stock, element (s_value stock) 2] (Num 0)]\<rparr>"

text \<open>Reading a field of a stock that is \<^verbatim>\<open>null\<close> throws.\<close>

definition convertStocks :: "api_stock option list \<Rightarrow> js_error + stock_node list" where
  "convertStocks stocks =
     (case those stocks of None \<Rightarrow> Inl TypeError | Some ss \<Rightarrow> Inr (map convertStock ss))"

definition convertIndustry :: "api_industry \<Rightarrow> js_error + hotmap_node" where
  "convertIndustry ind =
     (let industryItem =
            \<lparr>node_name = or_name [i_name ind, i_industry ind] unknownIndustry,
             node_value =
               [or_chain [i_value ind, i_market_cap ind, i_marketCap ind, element (i_value ind) 0] (Num 0),
                or_chain [i_stock_count ind, i_total_stock_count ind, i_stockCount ind,
                          element (i_value ind) 1] (Num 0),
                or_chain [i_increase ind, i_change ind, element (i_value ind) 2] (Num 0)],
             node_stock_count =
               or_chain [i_stock_count ind, i_total_stock_count ind, i_stockCount ind] (Num 0),
             node_children = []\<rparr>
      in case i_children ind of
           Some stocks \<Rightarrow>
             (case convertStocks stocks of
                Inl e \<Rightarrow> Inl e
              | Inr children \<Rightarrow> Inr (industryItem\<lparr>node_children := children\<rparr>))
         | None \<Rightarrow>
             (case i_stocks ind of
                Some stocks \<Rightarrow>
                  (case convertStocks stocks of
                     Inl e \<Rightarrow> Inl e
                   | Inr children \<Rightarrow> Inr (industryItem\<lparr>node_children := children\<rparr>))
              | None \<Rightarrow> Inr industryItem))"

text \<open>The \<^verbatim>\<open>map\<close> over the industries stops at the first error thrown.\<close>

fun convertAll :: "api_industry option list \<Rightarrow> js_error + hotmap_node list" where
  "convertAll [] = Inr []"
| "convertAll (None # rest) = Inl TypeError"
| "convertAll (Some ind # rest) =
     (case convertIndustry ind of
        Inl e \<Rightarrow> Inl e
      | Inr node \<Rightarrow> (case convertAll rest of Inl e \<Rightarrow> Inl e | Inr nodes \<Rightarrow> Inr (node # nodes)))"

definition convertApiDataToChartFormat :: "api_industry option list \<Rightarrow> js_error + hotmap_node list" where
  "convertApiDataToChartFormat apiData = convertAll apiData"

subsection \<open>\<^verbatim>\<open>updateHotmapChart\<close>\<close>

text \<open>
  The static data of the page: three industries (banks, pharmaceuticals and biology,
  electronics) with three stocks each.
\<close>

definition mockStock :: "string \<Rightarrow> real \<Rightarrow> real \<Rightarrow> real \<Rightarrow> stock_node" where
  "mockStock n a b c = \<lparr>child_name = n, child_value = Some [Num a, Num b, Num c]\<rparr>"

definition mockBank :: string where
  "mockBank = [CHR 0xE9, CHR 0x93, CHR 0xB6, CHR 0xE8, CHR 0xA1, CHR 0x8C]"

definition mockPharma :: string where
  "mockPharma =
     [CHR 0xE5, CHR 0x8C, CHR 0xBB, CHR 0xE8, CHR 0x8D, CHR 0xAF, CHR 0xE7, CHR 0x94,
     CHR 0x9F, CHR 0xE7, CHR 0x89, CHR 0xA9]"

definition mockElectronics :: string where
  "mockElectronics = [CHR 0xE7, CHR 0x94, CHR 0xB5, CHR 0xE5, CHR 0xAD, CHR 0x90]"

definition mockData :: "hotmap_node list" where
  "mockData =
     [\<lparr>node_name = mockBank,
       node_value = [Num 100000, Num 95000, Num 0.5],
       node_stock_count = Num 3,
       node_children =
         [mockStock ([CHR 0xE5, CHR 0xB9, CHR 0xB3, CHR 0xE5, CHR 0xAE, CHR 0x89,
                    CHR 0xE9, CHR 0x93, CHR 0xB6, CHR 0xE8, CHR 0xA1, CHR 0x8C]) 3000 2800 1.2,
          mockStock ([CHR 0xE6, CHR 0x8B, CHR 0x9B, CHR 0xE5, CHR 0x95, CHR 0x86,
                    CHR 0xE9, CHR 0x93, CHR 0xB6, CHR 0xE8, CHR 0xA1, CHR 0x8C]) 5000 4800 0.8,
          mockStock ([CHR 0xE5, CHR 0xB7, CHR 0xA5, CHR 0xE5, CHR 0x95, CHR 0x86,
                    CHR 0xE9, CHR 0x93, CHR 0xB6, CHR 0xE8, CHR 0xA1, CHR 0x8C]) 8000 7900 0.3]\<rparr>,
      \<lparr>node_name = mockPharma,
       node_value = [Num 80000, Num 75000, Num 1.2],
       node_stock_count = Num 3,
       node_children =
         [mockStock ([CHR 0xE6, CHR 0x81, CHR 0x92, CHR 0xE7, CHR 0x91, CHR 0x9E,
                    CHR 0xE5, CHR 0x8C, CHR 0xBB, CHR 0xE8, CHR 0x8D, CHR 0xAF]) 2000 1950 2.5,
          mockStock ([CHR 0xE8, CHR 0x8D, CHR 0xAF, CHR 0xE6, CHR 0x98, CHR 0x8E,
                    CHR 0xE5, CHR 0xBA, CHR 0xB7, CHR 0xE5, CHR 0xBE, CHR 0xB7]) 1500 1450 1.8,
          mockStock ([CHR 0xE9, CHR 0x95, CHR 0xBF, CHR 0xE6, CHR 0x98, CHR 0xA5,
                    CHR 0xE9, CHR 0xAB, CHR 0x98, CHR 0xE6, CHR 0x96, CHR 0xB0]) 1000 1020 (- 0.5)]\<rparr>,
      \<lparr>node_name = mockElectronics,
       node_value = [Num 120000, Num 125000, Num (- 0.8)],
       node_stock_count = Num 3,
       node_children =
         [mockStock ([CHR 0xE8, CHR 0xB4, CHR 0xB5, CHR 0xE5, CHR 0xB7, CHR 0x9E,
                    CHR 0xE8, CHR 0x8C, CHR 0x85, CHR 0xE5, CHR 0x8F, CHR 0xB0]) 25000 24800 0.7,
          mockStock ([CHR 0xE5, CHR 0xAE, CHR 0x81, CHR 0xE5, CHR 0xBE, CHR 0xB7,
                    CHR 0xE6, CHR 0x97, CHR 0xB6, CHR 0xE4, CHR 0xBB, CHR 0xA3]) 10000 9700 3.2,
          mockStock ([CHR 0xE6, CHR 0xAF, CHR 0x94, CHR 0xE4, CHR 0xBA, CHR 0x9A,
                    CHR 0xE8, CHR 0xBF, CHR 0xAA]) 8000 8200 (- 1.9)]\<rparr>]"

text \<open>\<^verbatim>\<open>value[3] = value[2] * 10\<close>, the value that colours the node.\<close>

definition visual :: "jsval list \<Rightarrow> jsval list" where
  "visual v = set_index v 3 (times (get_index v 2) 10)"

definition convertChild :: "stock_node \<Rightarrow> stock_node" where
  "convertChild child =
     (case child_value child of
        None \<Rightarrow> child
      | Some v \<Rightarrow> child\<lparr>child_value := Some (visual v)\<rparr>)"

definition convertData :: "hotmap_node list \<Rightarrow> hotmap_node list" where
  "convertData originList =
     map (\<lambda>node. node\<lparr>node_value := visual (node_value node),
                       node_children := map convertChild (node_children node)\<rparr>) originList"

text \<open>
  The state afterwards, the requests issued, and the data handed to the treemap; \<open>None\<close>
  when the function returns without drawing.
\<close>

record hotmap_result =
  after :: page_state
  requests :: "request list"
  rendered :: "hotmap_node list option"

text \<open>
  The function returns at once when there is no container. Otherwise it creates the chart
  if needed, fetches, converts, and draws the converted data, or the static data when the
  converted list is empty. An error thrown on the way is caught, and the static data is
  drawn.
\<close>

definition updateHotmapChart :: "hierarchy_body fetched \<Rightarrow> page_state \<Rightarrow> hotmap_result" where
  "updateHotmapChart resp st =
     (if (\<not> marketHotmapChart st \<or> \<not> marketHotmapRef st) \<and> \<not> marketHotmapRef st
      then \<lparr>after = st\<lparr>hotmapLoading := False\<rparr>, requests = [], rendered = None\<rparr>
      else
        let st1 = st\<lparr>marketHotmapChart := True, hotmapLoading := True\<rparr>;
            apiData = getIndustryStockHierarchy resp
        in case convertApiDataToChartFormat apiData of
             Inr chartData \<Rightarrow>
               (let finalData = (if chartData \<noteq> [] then chartData else mockData)
                in \<lparr>after = st1\<lparr>hotmapLoading := False\<rparr>,
                    requests = [HierarchyRequest],
                    rendered = Some (convertData finalData)\<rparr>)
           | Inl e \<Rightarrow>
               \<lparr>after = st1\<lparr>hotmapLoading := False\<rparr>,
                requests = [HierarchyRequest],
                rendered = Some (convertData mockData)\<rparr>)"


subsection \<open>Examples for the treemap\<close>

definition demo_stock :: api_stock where
  "demo_stock =
     \<lparr>s_name = Some ''PAB'', s_stock_name = None, s_value = Undefined, s_market_cap = Num 3000,
      s_marketCap = Undefined, s_increase = Undefined, s_change = Num 1.2\<rparr>"

definition demo_industry :: api_industry where
  "demo_industry =
     \<lparr>i_name = None, i_industry = Some ''Bank'', i_value = Arr [Num 70, Num 2, Num 0.5],
      i_market_cap = Undefined, i_marketCap = Undefined, i_stock_count = Num 2,
      i_total_stock_count = Undefined, i_stockCount = Undefined,
      i_increase = Undefined, i_change = Undefined,
      i_children = Some [Some demo_stock], i_stocks = None\<rparr>"



subsection \<open>\<^verbatim>\<open>analyzeIndustry\<close>\<close>

text \<open>
  The messages stored with a failed analysis: "cannot get the trend data of this
  industry" and "analysing the industry failed".
\<close>

definition noTrendData :: string where
  "noTrendData =
     [CHR 0xE6, CHR 0x97, CHR 0xA0, CHR 0xE6, CHR 0xB3, CHR 0x95, CHR 0xE8, CHR 0x8E,
     CHR 0xB7, CHR 0xE5, CHR 0x8F, CHR 0x96, CHR 0xE8, CHR 0xAF, CHR 0xA5, CHR 0xE8,
     CHR 0xA1, CHR 0x8C, CHR 0xE4, CHR 0xB8, CHR 0x9A, CHR 0xE7, CHR 0x9A, CHR 0x84,
     CHR 0xE8, CHR 0xB6, CHR 0x8B, CHR 0xE5, CHR 0x8A, CHR 0xBF, CHR 0xE6, CHR 0x95,
     CHR 0xB0, CHR 0xE6, CHR 0x8D, CHR 0xAE]"

definition analyzeFailed :: string where
  "analyzeFailed =
     [CHR 0xE5, CHR 0x88, CHR 0x86, CHR 0xE6, CHR 0x9E, CHR 0x90, CHR 0xE8, CHR 0xA1,
     CHR 0x8C, CHR 0xE4, CHR 0xB8, CHR 0x9A, CHR 0xE5, CHR 0xA4, CHR 0xB1, CHR 0xE8,
     CHR 0xB4, CHR 0xA5]"

text \<open>
  The texts of the summary, in the order of the source: the headline after the name
  ("industry, over the past") and after the days ("days, the performance:"); strong,
  good, steady and weak overall performance, each with the words for the average rise
  or fall; the share of rising days; the percent sign with a comma; high, medium and low
  volatility; the advice that ends the summary; and the word "days" of the period.
\<close>

definition txt_past :: string where
  "txt_past =
     [CHR 0xE8, CHR 0xA1, CHR 0x8C, CHR 0xE4, CHR 0xB8, CHR 0x9A, CHR 0xE5, CHR 0x9C,
     CHR 0xA8, CHR 0xE8, CHR 0xBF, CHR 0x87, CHR 0xE5, CHR 0x8E, CHR 0xBB]"

definition txt_days :: string where
  "txt_days =
     [CHR 0xE5, CHR 0xA4, CHR 0xA9, CHR 0xE7, CHR 0x9A, CHR 0x84, CHR 0xE8, CHR 0xA1,
     CHR 0xA8, CHR 0xE7, CHR 0x8E, CHR 0xB0, CHR 0xEF, CHR 0xBC, CHR 0x9A]"

definition txt_strong :: string where
  "txt_strong =
     [CHR 0xE6, CHR 0x95, CHR 0xB4, CHR 0xE4, CHR 0xBD, CHR 0x93, CHR 0xE8, CHR 0xA1,
     CHR 0xA8, CHR 0xE7, CHR 0x8E, CHR 0xB0, CHR 0xE5, CHR 0xBC, CHR 0xBA, CHR 0xE5,
     CHR 0x8A, CHR 0xB2, CHR 0xEF, CHR 0xBC, CHR 0x8C, CHR 0xE5, CHR 0xB9, CHR 0xB3,
     CHR 0xE5, CHR 0x9D, CHR 0x87, CHR 0xE6, CHR 0xB6, CHR 0xA8, CHR 0xE5, CHR 0xB9,
     CHR 0x85, CHR 0xE4, CHR 0xB8, CHR 0xBA]"

definition txt_good :: string where
  "txt_good =
     [CHR 0xE6, CHR 0x95, CHR 0xB4, CHR 0xE4, CHR 0xBD, CHR 0x93, CHR 0xE8, CHR 0xA1,
     CHR 0xA8, CHR 0xE7, CHR 0x8E, CHR 0xB0, CHR 0xE8, CHR 0x89, CHR 0xAF, CHR 0xE5,
     CHR 0xA5, CHR 0xBD, CHR 0xEF, CHR 0xBC, CHR 0x8C, CHR 0xE5, CHR 0xB9, CHR 0xB3,
     CHR 0xE5, CHR 0x9D, CHR 0x87, CHR 0xE6, CHR 0xB6, CHR 0xA8, CHR 0xE5, CHR 0xB9,
     CHR 0x85, CHR 0xE4, CHR 0xB8, CHR 0xBA]"

definition txt_steady :: string where
  "txt_steady =
     [CHR 0xE6, CHR 0x95, CHR 0xB4, CHR 0xE4, CHR 0xBD, CHR 0x93, CHR 0xE8, CHR 0xA1,
     CHR 0xA8, CHR 0xE7, CHR 0x8E, CHR 0xB0, CHR 0xE5, CHR 0xB9, CHR 0xB3, CHR 0xE7,
     CHR 0xA8, CHR 0xB3, CHR 0xEF, CHR 0xBC, CHR 0x8C, CHR 0xE5, CHR 0xB9, CHR 0xB3,
     CHR 0xE5, CHR 0x9D, CHR 0x87, CHR 0xE8, CHR 0xB7, CHR 0x8C, CHR 0xE5, CHR 0xB9,
     CHR 0x85, CHR 0xE4, CHR 0xB8, CHR 0xBA]"

definition txt_weak :: string where
  "txt_weak =
     [CHR 0xE6, CHR 0x95, CHR 0xB4, CHR 0xE4, CHR 0xBD, CHR 0x93, CHR 0xE8, CHR 0xA1,
     CHR 0xA8, CHR 0xE7, CHR 0x8E, CHR 0xB0, CHR 0xE8, CHR 0xBE, CHR 0x83, CHR 0xE5,
     CHR 0xBC, CHR 0xB1, CHR 0xEF, CHR 0xBC, CHR 0x8C, CHR 0xE5, CHR 0xB9, CHR 0xB3,
     CHR 0xE5, CHR 0x9D, CHR 0x87, CHR 0xE8, CHR 0xB7, CHR 0x8C, CHR 0xE5, CHR 0xB9,
     CHR 0x85, CHR 0xE4, CHR 0xB8, CHR 0xBA]"

definition txt_rising :: string where
  "txt_rising =
     [CHR 0xE4, CHR 0xB8, CHR 0x8A, CHR 0xE6, CHR 0xB6, CHR 0xA8, CHR 0xE5, CHR 0xA4,
     CHR 0xA9, CHR 0xE6, CHR 0x95, CHR 0xB0, CHR 0xE5, CHR 0x8D, CHR 0xA0, CHR 0xE6,
     CHR 0xAF, CHR 0x94]"

definition txt_percent :: string where
  "txt_percent = ''%'' @ [CHR 0xEF, CHR 0xBC, CHR 0x8C]"

definition txt_high :: string where
  "txt_high =
     [CHR 0xE6, CHR 0xB3, CHR 0xA2, CHR 0xE5, CHR 0x8A, CHR 0xA8, CHR 0xE6, CHR 0x80,
     CHR 0xA7, CHR 0xE8, CHR 0xBE, CHR 0x83, CHR 0xE5, CHR 0xA4, CHR 0xA7, CHR 0xEF,
     CHR 0xBC, CHR 0x8C]"

definition txt_medium :: string where
  "txt_medium =
     [CHR 0xE6, CHR 0xB3, CHR 0xA2, CHR 0xE5, CHR 0x8A, CHR 0xA8, CHR 0xE6, CHR 0x80,
     CHR 0xA7, CHR 0xE9, CHR 0x80, CHR 0x82, CHR 0xE4, CHR 0xB8, CHR 0xAD, CHR 0xEF,
     CHR 0xBC, CHR 0x8C]"

definition txt_low :: string where
  "txt_low =
     [CHR 0xE6, CHR 0xB3, CHR 0xA2, CHR 0xE5, CHR 0x8A, CHR 0xA8, CHR 0xE6, CHR 0x80,
     CHR 0xA7, CHR 0xE8, CHR 0xBE, CHR 0x83, CHR 0xE5, CHR 0xB0, CHR 0x8F, CHR 0xEF,
     CHR 0xBC, CHR 0x8C]"

definition txt_advice :: string where
  "txt_advice =
     [CHR 0xE5, CHR 0xBB, CHR 0xBA, CHR 0xE8, CHR 0xAE, CHR 0xAE, CHR 0xE5, CHR 0x85,
     CHR 0xB3, CHR 0xE6, CHR 0xB3, CHR 0xA8, CHR 0xE8, CHR 0xAF, CHR 0xA5, CHR 0xE8,
     CHR 0xA1, CHR 0x8C, CHR 0xE4, CHR 0xB8, CHR 0x9A, CHR 0xE7, CHR 0x9A, CHR 0x84,
     CHR 0xE9, CHR 0xBE, CHR 0x99, CHR 0xE5, CHR 0xA4, CHR 0xB4, CHR 0xE8, CHR 0x82,
     CHR 0xA1, CHR 0xE7, CHR 0xA5, CHR 0xA8, CHR 0xE8, CHR 0xA1, CHR 0xA8, CHR 0xE7,
     CHR 0x8E, CHR 0xB0, CHR 0xEF, CHR 0xBC, CHR 0x8C, CHR 0xE7, CHR 0xBB, CHR 0x93,
     CHR 0xE5, CHR 0x90, CHR 0x88, CHR 0xE5, CHR 0xAE, CHR 0x8F, CHR 0xE8, CHR 0xA7,
     CHR 0x82, CHR 0xE7, CHR 0xBB, CHR 0x8F, CHR 0xE6, CHR 0xB5, CHR 0x8E, CHR 0xE7,
     CHR 0x8E, CHR 0xAF, CHR 0xE5, CHR 0xA2, CHR 0x83, CHR 0xE5, CHR 0x92, CHR 0x8C,
     CHR 0xE8, CHR 0xA1, CHR 0x8C, CHR 0xE4, CHR 0xB8, CHR 0x9A, CHR 0xE6, CHR 0x94,
     CHR 0xBF, CHR 0xE7, CHR 0xAD, CHR 0x96, CHR 0xE8, CHR 0xBF, CHR 0x9B, CHR 0xE8,
     CHR 0xA1, CHR 0x8C, CHR 0xE6, CHR 0x8A, CHR 0x95, CHR 0xE8, CHR 0xB5, CHR 0x84,
     CHR 0xE5, CHR 0x86, CHR 0xB3, CHR 0xE7, CHR 0xAD, CHR 0x96, CHR 0xE3, CHR 0x80,
     CHR 0x82]"

definition txt_day :: string where
  "txt_day = [CHR 0xE5, CHR 0xA4, CHR 0xA9]"

definition generateIndustrySummary ::
  "int \<Rightarrow> string \<Rightarrow> real \<Rightarrow> scope_value \<Rightarrow> real \<Rightarrow> text_part list" where
  "generateIndustrySummary days name average positiveRate volatility =
     [Lit (name @ txt_past @ showInt days @ txt_days)]
     @ [Lit (if average > 0.5 then txt_strong @ toFixed (average * 100) 2 @ txt_percent
             else if average > 0 then txt_good @ toFixed (average * 100) 2 @ txt_percent
             else if average > - 0.5 then txt_steady @ toFixed (\<bar>average\<bar> * 100) 2 @ txt_percent
             else txt_weak @ toFixed (\<bar>average\<bar> * 100) 2 @ txt_percent)]
     @ [Lit txt_rising, Interp positiveRate, Lit txt_percent]
     @ [Lit (if volatility > 2 then txt_high else if volatility > 1 then txt_medium else txt_low)]
     @ [Lit txt_advice]"

text \<open>The dates of one industry, as they are added to the set \<^verbatim>\<open>allDates\<close>.\<close>

definition industryDates :: "(string \<times> trend_item list) list \<Rightarrow> string list" where
  "industryDates sts =
     concat (map (\<lambda>stockData. filter (\<lambda>d. d \<noteq> '''') (map date stockData)) (map snd sts))"

text \<open>
  The loop over the recent dates. The accumulator holds \<^verbatim>\<open>dailyPerformance\<close>,
  \<^verbatim>\<open>positiveDays\<close>, \<^verbatim>\<open>negativeDays\<close> and \<^verbatim>\<open>totalChange\<close>; the inner loop over the
  stocks is the one of the chart.
\<close>

record day_acc =
  acc_daily :: "(string \<times> real) list"
  acc_positive :: nat
  acc_negative :: nat
  acc_total :: real

definition add_day :: "(string \<times> trend_item list) list \<Rightarrow> string \<Rightarrow> day_acc \<Rightarrow> day_acc" where
  "add_day sts d acc =
     (let (dayChange, dayCount) = day_totals sts d
      in if dayCount > 0
         then let average = dayChange / real dayCount
              in acc\<lparr>acc_daily := acc_daily acc @ [(d, average)],
                     acc_positive := (if average > 0 then acc_positive acc + 1 else acc_positive acc),
                     acc_negative := (if average > 0 then acc_negative acc
                                      else if average < 0 then acc_negative acc + 1
                                      else acc_negative acc),
                     acc_total := acc_total acc + average\<rparr>
         else acc)"

text \<open>
  The identifiers in scope where the result object is built: the parameter and the
  variables of \<^verbatim>\<open>analyzeIndustry\<close> declared up to there, then the imports and the
  top-level declarations of the script, in the order of the source. The global object of
  the browser is not part of the model; it has no property of the name looked up below.
\<close>

definition function_scope ::
  "string \<Rightarrow> real \<Rightarrow> nat \<Rightarrow> nat \<Rightarrow> nat \<Rightarrow> real \<Rightarrow> real \<Rightarrow> (string \<times> scope_value) list" where
  "function_scope name totalChange positiveDays negativeDays stockCount average volatility =
     [(''industry'', StrVal name),
      (''industryTrend'', ObjVal),
      (''totalChange'', NumVal totalChange),
      (''totalVolatility'', NumVal 0),
      (''positiveDays'', NumVal (real positiveDays)),
      (''negativeDays'', NumVal (real negativeDays)),
      (''stockCount'', NumVal (real stockCount)),
      (''allDates'', ObjVal),
      (''sortedDates'', ObjVal),
      (''recentDates'', ObjVal),
      (''dailyPerformance'', ObjVal),
      (''avgChange'', NumVal average),
      (''volatility'', NumVal volatility)]"

definition module_scope :: "(string \<times> scope_value) list" where
  "module_scope = map (\<lambda>name. (name, ObjVal))
     [''ref'', ''onMounted'', ''nextTick'', ''echarts'', ''Loading'',
      ''activeTab'', ''industryAnalysis'', ''industryTrend'', ''allIndustryTrends'',
      ''loading'', ''error'', ''daysToShow'', ''industryFilter'',
      ''industryAnalysisResult'', ''analyzingIndustry'', ''analysisLoading'',
      ''industryCurrentPage'', ''industryPageSize'', ''totalIndustries'',
      ''industryChartRef'', ''industryChart'', ''marketHotmapRef'', ''marketHotmapChart'',
      ''hotmapData'', ''hotmapLoading'', ''hotmapInitialized'', ''API_BASE_URL'',
      ''getIndustryAnalysis'', ''handleIndustryPageChange'', ''handleIndustrySizeChange'',
      ''initIndustryChart'', ''handleDaysChange'', ''handleIndustryFilterChange'',
      ''getIndustryTrend'', ''getAllIndustryTrends'', ''updateIndustryChart'',
      ''analyzeIndustry'', ''analyzeIndustryWithLLM'', ''analyzeAllIndustriesWithLLM'',
      ''generateIndustrySummary'', ''getHotmapData'', ''initHotmapChart'',
      ''getIndustryStockHierarchy'', ''convertApiDataToChartFormat'', ''updateHotmapChart'',
      ''generateMockIndustryData'', ''initHotmapChartWithSize'']"

text \<open>Evaluating an identifier: its value in the nearest scope, or a ReferenceError.\<close>

definition resolve :: "(string \<times> scope_value) list \<Rightarrow> string \<Rightarrow> js_error + scope_value" where
  "resolve scope x = (case map_of scope x of Some v \<Rightarrow> Inr v | None \<Rightarrow> Inl (ReferenceError x))"

text \<open>
  The body of the \<^verbatim>\<open>try\<close> block after the trend has been found: the statistics, then
  the result object (\<open>name\<close> is the parameter \<^verbatim>\<open>industry\<close>, \<open>average\<close> the variable
  \<^verbatim>\<open>avgChange\<close>, \<open>dates\<close> the variable \<^verbatim>\<open>recentDates\<close>). Its last property calls \<^verbatim>\<open>generateIndustrySummary\<close> with the
  identifiers \<^verbatim>\<open>industry\<close>, \<^verbatim>\<open>avgChange\<close>, \<^verbatim>\<open>positiveRate\<close> and
  \<^verbatim>\<open>volatility\<close> as arguments; the first, second and fourth are variables of the
  function, the third is looked up.
\<close>

definition analysisResult :: "int \<Rightarrow> string \<Rightarrow> (string \<times> trend_item list) list \<Rightarrow> js_error + analysis" where
  "analysisResult days name sts =
     (let stockCount = length sts;
          dates = slice_from (- days) (sort (remdups (industryDates sts)));
          acc = fold (add_day sts) dates
                  \<lparr>acc_daily = [], acc_positive = 0, acc_negative = 0, acc_total = 0\<rparr>;
          dailyPerformance = acc_daily acc;
          average = (if length dailyPerformance > 0
                     then acc_total acc / real (length dailyPerformance) else 0);
          volatility = (if length dailyPerformance > 0
                        then sqrt (fold (\<lambda>day sum. sum + (snd day - average) ^ 2) dailyPerformance 0
                                   / real (length dailyPerformance))
                        else 0);
          scope = function_scope name (acc_total acc) (acc_positive acc) (acc_negative acc)
                    stockCount average volatility @ module_scope
      in case resolve scope ''positiveRate'' of
           Inl e \<Rightarrow> Inl e
         | Inr positiveRate \<Rightarrow>
             Inr \<lparr>a_industry = name,
                  a_period = showInt days @ txt_day,
                  a_stockCount = stockCount,
                  a_avgChange = average,
                  a_volatility = volatility,
                  a_positiveDays = acc_positive acc,
                  a_negativeDays = acc_negative acc,
                  a_positiveRate =
                    (if length dailyPerformance > 0
                     then StrVal (toFixed (real (acc_positive acc) / real (length dailyPerformance) * 100) 2)
                     else NumVal 0),
                  a_dailyPerformance = dailyPerformance,
                  a_summary = generateIndustrySummary days name average positiveRate volatility\<rparr>)"

text \<open>
  The function: without trend data for the industry it stores a message and returns; an
  error thrown in the \<^verbatim>\<open>try\<close> block is caught and stored as a message; the
  \<^verbatim>\<open>finally\<close> block resets \<^verbatim>\<open>analysisLoading\<close> on every path.
\<close>

definition analyzeIndustry :: "string \<Rightarrow> page_state \<Rightarrow> page_state" where
  "analyzeIndustry name st =
     (let st1 = st\<lparr>analysisLoading := True, analyzingIndustry := name,
                    industryAnalysisResult := None\<rparr>;
          st2 = (case (case map_of (allIndustryTrends st1) name of
                         None \<Rightarrow> None
                       | Some trend \<Rightarrow> stock_trends trend) of
                   None \<Rightarrow> st1\<lparr>industryAnalysisResult := Some (AnalysisError name noTrendData)\<rparr>
                 | Some sts \<Rightarrow>
                     (case analysisResult (daysToShow st1) name sts of
                        Inr result \<Rightarrow> st1\<lparr>industryAnalysisResult := Some (LocalAnalysis result)\<rparr>
                      | Inl e \<Rightarrow> st1\<lparr>industryAnalysisResult := Some (AnalysisError name analyzeFailed)\<rparr>))
      in st2\<lparr>analysisLoading := False\<rparr>)"

subsection \<open>Reading the failures\<close>


section \<open>Properties\<close>

subsection \<open>The line chart\<close>

lemma add_stock_first_change:
  "add_stock d stockData acc =
     (case first_change d stockData of None \<Rightarrow> acc | Some c \<Rightarrow> (fst acc + c, snd acc + 1))"
  by (simp add: add_stock_def first_change_def split: option.splits percent.splits)

lemma fold_add_stock:
  "fold (add_stock d) xs acc =
     (fst acc + sum_list (List.map_filter (first_change d) xs),
      snd acc + length (List.map_filter (first_change d) xs))"
proof (induction xs arbitrary: acc)
  case Nil
  show ?case by (simp add: List.map_filter_simps)
next
  case (Cons x xs)
  have "fold (add_stock d) (x # xs) acc = fold (add_stock d) xs (add_stock d x acc)"
    by simp
  also have "\<dots> = (fst (add_stock d x acc) + sum_list (List.map_filter (first_change d) xs),
      snd (add_stock d x acc) + length (List.map_filter (first_change d) xs))"
    by (rule Cons.IH)
  also have "\<dots> = (fst acc + sum_list (List.map_filter (first_change d) (x # xs)),
      snd acc + length (List.map_filter (first_change d) (x # xs)))"
    by (cases "first_change d x")
       (simp_all add: add_stock_first_change [of d x acc] List.map_filter_simps)
  finally show ?case .
qed

lemma day_totals_contributions:
  "day_totals sts d = (sum_list (contributions sts d), length (contributions sts d))"
  by (simp add: day_totals_def contributions_def fold_add_stock)

lemma avgChange_mean:
  "avgChange sts d =
     (if contributions sts d = [] then ''0''
      else toFixed (sum_list (contributions sts d) / real (length (contributions sts d))) 2)"
  by (simp add: avgChange_def day_totals_contributions)

lemma build_series_length:
  "length (build_series rnd st dates index k inds) = length inds"
  by (induction inds arbitrary: index k) (simp_all split: option.splits)

lemma build_series_names:
  "map series_name (build_series rnd st dates index k inds) = map industry inds"
  by (induction inds arbitrary: index k) (simp_all split: option.splits)

lemma build_series_real:
  "i < length inds \<Longrightarrow> hasRealData st \<Longrightarrow> trend_of st (inds ! i) = Some sts \<Longrightarrow>
   series_data (build_series rnd st dates index k inds ! i) = map (avgChange sts) dates"
proof (induction inds arbitrary: index k i)
  case Nil
  then show ?case by simp
next
  case (Cons a inds)
  show ?case
  proof (cases i)
    case 0
    with Cons.prems show ?thesis by simp
  next
    case (Suc i')
    with Cons.prems have "series_data (build_series rnd st dates (index + 1) k' inds ! i') = map (avgChange sts) dates" for k'
      by (intro Cons.IH) simp_all
    with Suc show ?thesis by (simp split: option.splits)
  qed
qed


lemma trend_of_hasRealData: "trend_of st ind = Some sts \<Longrightarrow> hasRealData st"
  by (auto simp: trend_of_def hasRealData_def split: option.splits)

lemma updateIndustryChart_charts:
  "(snd (updateIndustryChart rnd st) \<noteq> None) =
   (industryAnalysis st \<noteq> [] \<and> (industryChart st \<or> industryChartRef st))"
  by (auto simp: updateIndustryChart_def Let_def)

lemma insert_by_insort:
  "insert_by (\<lambda>a b. f a - f b) x ys = insort_key f x ys"
  by (induction ys) simp_all

lemma sort_by_sort_key: "sort_by (\<lambda>a b. f a - f b) xs = sort_key f xs"
  by (induction xs) (simp_all add: sort_by_def insert_by_insort sort_key_def)

lemma build_series_data_length:
  "i < length inds \<Longrightarrow> length (series_data (build_series rnd st dates index k inds ! i)) = length dates"
proof (induction inds arbitrary: index k i)
  case Nil
  then show ?case by simp
next
  case (Cons a inds)
  show ?case
  proof (cases i)
    case 0
    then show ?thesis by (simp split: option.splits)
  next
    case (Suc i')
    with Cons.prems have "length (series_data (build_series rnd st dates (index + 1) k0 inds ! i')) = length dates" for k0
      by (intro Cons.IH) simp
    with Suc show ?thesis by (simp split: option.splits)
  qed
qed

lemma plotted_eq:
  assumes "chart_ready st" "i < length (industriesToShow st)" "j < length (recentDates st)"
  shows "plotted rnd st i j = Some (series_data (chartSeries rnd st ! i) ! j)"
proof -
  have "length (series_data (chartSeries rnd st ! i)) = length (recentDates st)"
    using assms(2) by (simp add: chartSeries_def build_series_data_length)
  then show ?thesis
    using assms
    by (auto simp: plotted_def updateIndustryChart_def chart_ready_def Let_def chartSeries_def build_series_length)
qed

lemma charted_eq:
  "chart_ready st \<Longrightarrow> charted rnd st = Some (map industry (industriesToShow st))"
  by (auto simp: charted_def updateIndustryChart_def chart_ready_def Let_def chartSeries_def build_series_names)

lemma first_change_None:
  assumes "\<forall>item \<in> set stockData. date item = d \<longrightarrow> change_percent item = Missing"
  shows "first_change d stockData = None"
proof (cases "find (\<lambda>item. date item = d) stockData")
  case None
  then show ?thesis by (simp add: first_change_def)
next
  case (Some x)
  then have "x \<in> set stockData" "date x = d"
    by (auto simp: find_Some_iff)
  with assms Some show ?thesis by (simp add: first_change_def)
qed

lemma contributions_Nil:
  assumes "\<forall>stockData \<in> snd ` set sts. \<forall>item \<in> set stockData. date item = d \<longrightarrow> change_percent item = Missing"
  shows "contributions sts d = []"
proof -
  have "\<forall>stockData \<in> set (map snd sts). first_change d stockData = None"
    using assms by (auto intro!: first_change_None)
  then have "filter (\<lambda>x. first_change d x \<noteq> None) (map snd sts) = []"
    by (simp add: filter_empty_conv)
  then show ?thesis
    by (simp add: contributions_def List.map_filter_def)
qed

lemma any_change_first_change:
  "distinct (map date stockData) \<Longrightarrow> any_change d stockData = first_change d stockData"
proof (induction stockData)
  case Nil
  show ?case by (simp add: any_change_def first_change_def)
next
  case (Cons item rest)
  show ?case
  proof (cases "date item = d")
    case True
    with Cons.prems have "\<forall>x \<in> set rest. date x \<noteq> d"
      by (auto simp: image_iff)
    then have "filter (\<lambda>item. date item = d \<and> change_percent item \<noteq> Missing) rest = []"
      by (simp add: filter_empty_conv)
    with True show ?thesis
      by (cases "change_percent item") (simp_all add: any_change_def first_change_def)
  next
    case False
    with Cons show ?thesis
      by (simp add: any_change_def first_change_def)
  qed
qed

lemma map_filter_cong_set:
  "\<forall>x \<in> set xs. f x = g x \<Longrightarrow> List.map_filter f xs = List.map_filter g xs"
  by (induction xs) (auto simp: List.map_filter_simps split: option.splits)

lemma stated_contributions_distinct:
  assumes "\<forall>stockData \<in> snd ` set sts. distinct (map date stockData)"
  shows "stated_contributions sts d = contributions sts d"
proof -
  have "\<forall>stockData \<in> set (map snd sts). any_change d stockData = first_change d stockData"
    using assms any_change_first_change by auto
  then have "List.map_filter (any_change d) (map snd sts) = List.map_filter (first_change d) (map snd sts)"
    by (rule map_filter_cong_set)
  then show ?thesis
    by (simp add: stated_contributions_def contributions_def)
qed

lemma null_is_counted:
  "avgChange [(''000001'', [mk_item ''2024-01-02'' Null]), (''600036'', [mk_item ''2024-01-02'' (Percent 3)])]
     ''2024-01-02'' = ''1.50''"
  by code_simp

text \<open>
  Claim C9. In \<^verbatim>\<open>updateIndustryChart\<close>, take an industry with trend data and a date of
  the displayed window for which no stock of the industry has a record with a defined
  \<^verbatim>\<open>change_percent\<close>. The value plotted for the industry on that date is the string
  \<^verbatim>\<open>'0'\<close>: a point of the series, not a missing one.
\<close>
theorem C9_zero_string:
  assumes "chart_ready st"
      and "i < length (industriesToShow st)"
      and "trend_of st (industriesToShow st ! i) = Some sts"
      and "j < length (recentDates st)"
      and "\<forall>stockData \<in> snd ` set sts. \<forall>item \<in> set stockData.
             date item = recentDates st ! j \<longrightarrow> change_percent item = Missing"
  shows "plotted rnd st i j = Some ''0''"
proof -
  have "series_data (chartSeries rnd st ! i) = map (avgChange sts) (recentDates st)"
    unfolding chartSeries_def
    using assms(2,3) by (intro build_series_real) (auto intro: trend_of_hasRealData)
  moreover have "avgChange sts (recentDates st ! j) = ''0''"
    using contributions_Nil [OF assms(5)] by (simp add: avgChange_mean)
  ultimately show ?thesis
    using assms(1,2,4) by (simp add: plotted_eq)
qed


lemma demo_shown: "industriesToShow demo_state = demo_page"
  by (simp add: industriesToShow_def demo_state_def)

lemma demo_dates: "recentDates demo_state = [''2024-01-02'', ''2024-01-03'']"
  by code_simp

lemma demo_ready: "chart_ready demo_state"
  by (simp add: chart_ready_def demo_state_def demo_page_def)




text \<open>
  Claim C9 on the example page: Steel has no record for the first date, and its series
  starts with \<^verbatim>\<open>'0'\<close>.
\<close>
theorem C9_witness:
  "plotted zero_random demo_state 1 0 = Some ''0''"
proof (rule C9_zero_string)
  show "chart_ready demo_state" by (rule demo_ready)
  show "1 < length (industriesToShow demo_state)" by (simp add: demo_shown demo_page_def)
  show "trend_of demo_state (industriesToShow demo_state ! 1) = Some steel_trends"
    by code_simp
  show "0 < length (recentDates demo_state)" by (simp add: demo_dates)
  show "\<forall>stockData \<in> snd ` set steel_trends. \<forall>item \<in> set stockData.
             date item = recentDates demo_state ! 0 \<longrightarrow> change_percent item = Missing"
    by (simp add: demo_dates steel_trends_def mk_item_def)
qed

lemma take3_sort_key:
  fixes f :: "'a \<Rightarrow> real"
  shows "mset (take 3 (sort_key f xs)) + mset (drop 3 (sort_key f xs)) = mset xs"
    and "length (take 3 (sort_key f xs)) = min 3 (length xs)"
    and "\<forall>x \<in> set (take 3 (sort_key f xs)). \<forall>y \<in> set (drop 3 (sort_key f xs)). f x \<le> f y"
proof -
  have "mset (take 3 (sort_key f xs)) + mset (drop 3 (sort_key f xs))
          = mset (take 3 (sort_key f xs) @ drop 3 (sort_key f xs))"
    by (simp only: mset_append)
  also have "\<dots> = mset xs"
    by (simp only: append_take_drop_id mset_sort)
  finally show "mset (take 3 (sort_key f xs)) + mset (drop 3 (sort_key f xs)) = mset xs" .
  show "length (take 3 (sort_key f xs)) = min 3 (length xs)"
    by simp
  have "map f (take 3 (sort_key f xs)) @ map f (drop 3 (sort_key f xs)) = map f (sort_key f xs)"
    by (simp only: map_append [symmetric] append_take_drop_id)
  then have "sorted (map f (take 3 (sort_key f xs)) @ map f (drop 3 (sort_key f xs)))"
    by (simp only: sorted_sort_key)
  then have "\<forall>a \<in> set (map f (take 3 (sort_key f xs))). \<forall>b \<in> set (map f (drop 3 (sort_key f xs))). a \<le> b"
    unfolding sorted_append by blast
  then show "\<forall>x \<in> set (take 3 (sort_key f xs)). \<forall>y \<in> set (drop 3 (sort_key f xs)). f x \<le> f y"
    by simp
qed

lemma industriesToShow_top3:
  "industryFilter st = ''top3'' \<Longrightarrow>
   industriesToShow st = take 3 (sort_key (\<lambda>i. - avg_change i) (industryAnalysis st))"
  using sort_by_sort_key [of "\<lambda>i. - avg_change i" "industryAnalysis st"]
  by (simp add: industriesToShow_def)

lemma industriesToShow_bottom3:
  "industryFilter st = ''bottom3'' \<Longrightarrow>
   industriesToShow st = take 3 (sort_key avg_change (industryAnalysis st))"
  using sort_by_sort_key [of avg_change "industryAnalysis st"]
  by (simp add: industriesToShow_def)

text \<open>
  Claim C2. When the function charts, the series are those of \<open>industriesToShow\<close>, in
  order. With the filter \<^verbatim>\<open>'top3'\<close> these are the first three industries of the page
  sorted by descending \<^verbatim>\<open>avg_change\<close> (all of them when the page has fewer than three),
  and no industry left out has a higher \<^verbatim>\<open>avg_change\<close> than a charted one; with
  \<^verbatim>\<open>'bottom3'\<close> the same for ascending order and lower values; with any other filter,
  such as \<^verbatim>\<open>'all'\<close>, every industry of the page is charted.
\<close>
theorem C2_filter:
  assumes "chart_ready st"
  shows "charted rnd st = Some (map industry (industriesToShow st))
       \<and> mset (industriesToShow st) + mset (notShown st) = mset (industryAnalysis st)
       \<and> (industryFilter st = ''top3'' \<longrightarrow>
            industriesToShow st = take 3 (sort_key (\<lambda>i. - avg_change i) (industryAnalysis st))
          \<and> length (industriesToShow st) = min 3 (length (industryAnalysis st))
          \<and> (\<forall>x \<in> set (industriesToShow st). \<forall>y \<in> set (notShown st). avg_change y \<le> avg_change x))
       \<and> (industryFilter st = ''bottom3'' \<longrightarrow>
            industriesToShow st = take 3 (sort_key avg_change (industryAnalysis st))
          \<and> length (industriesToShow st) = min 3 (length (industryAnalysis st))
          \<and> (\<forall>x \<in> set (industriesToShow st). \<forall>y \<in> set (notShown st). avg_change x \<le> avg_change y))
       \<and> (industryFilter st \<noteq> ''top3'' \<and> industryFilter st \<noteq> ''bottom3'' \<longrightarrow>
            industriesToShow st = industryAnalysis st)"
proof (intro conjI impI)
  show "charted rnd st = Some (map industry (industriesToShow st))"
    using assms by (rule charted_eq)
  show "mset (industriesToShow st) + mset (notShown st) = mset (industryAnalysis st)"
    by (cases "industryFilter st = ''top3''"; cases "industryFilter st = ''bottom3''")
       (simp_all add: industriesToShow_top3 industriesToShow_bottom3 notShown_def take3_sort_key(1),
        simp add: industriesToShow_def)
next
  assume t: "industryFilter st = ''top3''"
  show "industriesToShow st = take 3 (sort_key (\<lambda>i. - avg_change i) (industryAnalysis st))"
    using t by (rule industriesToShow_top3)
  show "length (industriesToShow st) = min 3 (length (industryAnalysis st))"
    using t by (simp add: industriesToShow_top3)
  show "\<forall>x \<in> set (industriesToShow st). \<forall>y \<in> set (notShown st). avg_change y \<le> avg_change x"
    using take3_sort_key(3) [of "\<lambda>i. - avg_change i" "industryAnalysis st"] t
    by (simp add: industriesToShow_top3 notShown_def)
next
  assume b: "industryFilter st = ''bottom3''"
  show "industriesToShow st = take 3 (sort_key avg_change (industryAnalysis st))"
    using b by (rule industriesToShow_bottom3)
  show "length (industriesToShow st) = min 3 (length (industryAnalysis st))"
    using b by (simp add: industriesToShow_bottom3)
  show "\<forall>x \<in> set (industriesToShow st). \<forall>y \<in> set (notShown st). avg_change x \<le> avg_change y"
    using take3_sort_key(3) [of avg_change "industryAnalysis st"] b
    by (simp add: industriesToShow_bottom3 notShown_def)
next
  assume "industryFilter st \<noteq> ''top3'' \<and> industryFilter st \<noteq> ''bottom3''"
  then show "industriesToShow st = industryAnalysis st"
    by (simp add: industriesToShow_def)
qed







text \<open>
  Claim C2 on the example page, once for each filter. Bank and Media have the same
  \<^verbatim>\<open>avg_change\<close>; the stable sort keeps Bank first.
\<close>
theorem C2_witness:
  "chart_ready demo_top3 \<and> industryFilter demo_top3 = ''top3''
   \<and> charted zero_random demo_top3 = Some [''Bank'', ''Media'', ''Coal'']
   \<and> map industry (notShown demo_top3) = [''Steel'']
   \<and> chart_ready demo_bottom3 \<and> industryFilter demo_bottom3 = ''bottom3''
   \<and> charted zero_random demo_bottom3 = Some [''Steel'', ''Coal'', ''Bank'']
   \<and> map industry (notShown demo_bottom3) = [''Media'']
   \<and> chart_ready demo_state \<and> industryFilter demo_state = ''all''
   \<and> charted zero_random demo_state = Some [''Bank'', ''Steel'', ''Coal'', ''Media'']"
proof -
  have r: "chart_ready demo_top3" "chart_ready demo_bottom3" "chart_ready demo_state"
    by code_simp+
  have f: "industryFilter demo_top3 = ''top3''" "industryFilter demo_bottom3 = ''bottom3''"
    "industryFilter demo_state = ''all''"
    by (simp_all add: demo_top3_def demo_bottom3_def demo_state_def)
  have "charted zero_random demo_top3
          = Some (map industry (take 3 (sort_key (\<lambda>i. - avg_change i) (industryAnalysis demo_top3))))"
    using C2_filter [OF r(1), of zero_random] f(1) by simp
  moreover have "map industry (take 3 (sort_key (\<lambda>i. - avg_change i) (industryAnalysis demo_top3)))
          = [''Bank'', ''Media'', ''Coal'']"
    by code_simp
  moreover have "charted zero_random demo_bottom3
          = Some (map industry (take 3 (sort_key avg_change (industryAnalysis demo_bottom3))))"
    using C2_filter [OF r(2), of zero_random] f(2) by simp
  moreover have "map industry (take 3 (sort_key avg_change (industryAnalysis demo_bottom3)))
          = [''Steel'', ''Coal'', ''Bank'']"
    by code_simp
  moreover have "charted zero_random demo_state = Some (map industry (industryAnalysis demo_state))"
    using C2_filter [OF r(3), of zero_random] f(3) by simp
  moreover have "map industry (industryAnalysis demo_state) = [''Bank'', ''Steel'', ''Coal'', ''Media'']"
    by code_simp
  moreover have "map industry (notShown demo_top3) = [''Steel'']"
    "map industry (notShown demo_bottom3) = [''Media'']"
    by code_simp+
  ultimately show ?thesis
    using r f by simp
qed


subsection \<open>The requests\<close>













lemma getAllIndustryTrends_keeps:
  "industryAnalysis (fst (getAllIndustryTrends trendResps st)) = industryAnalysis st"
  "totalIndustries (fst (getAllIndustryTrends trendResps st)) = totalIndustries st"
  "loading (fst (getAllIndustryTrends trendResps st)) = False"
  by (simp_all add: getAllIndustryTrends_def Let_def split: sum.splits)




text \<open>
  Outside the amended claim: one body that cannot be parsed rejects the join. The
  message goes to \<^verbatim>\<open>error\<close>, and the map keeps its old entries, whatever the other
  requests brought.
\<close>

lemma unreadable_body_keeps_map:
  "error (fst (getAllIndustryTrends broken_body_resps demo_state))
     = Some (trendsFailed @ ''Unexpected token N in JSON'')
   \<and> allIndustryTrends (fst (getAllIndustryTrends broken_body_resps demo_state))
      = allIndustryTrends demo_state"
  by code_simp

text \<open>
  Claim C7. When the analysis endpoint answers with an object whose \<^verbatim>\<open>data\<close> field is
  an array, \<^verbatim>\<open>industryAnalysis\<close> is that array, element for element, the table has as
  many rows, and \<^verbatim>\<open>totalIndustries\<close> is the \<^verbatim>\<open>total\<close> of the response; when
  \<^verbatim>\<open>data\<close> is not an array, \<^verbatim>\<open>industryAnalysis\<close> is the empty list.
\<close>

theorem C7_analysis_rows:
  assumes "resp = Response status (Inr body)" and "ok status"
  shows "(\<forall>rows. body_data body = Some rows \<longrightarrow>
            industryAnalysis (fst (getIndustryAnalysis resp trendResps st)) = rows
          \<and> tableRows (fst (getIndustryAnalysis resp trendResps st)) = rows
          \<and> length (tableRows (fst (getIndustryAnalysis resp trendResps st))) = length rows)
       \<and> (\<forall>t. body_total body = Some t \<longrightarrow>
            totalIndustries (fst (getIndustryAnalysis resp trendResps st)) = t)
       \<and> (body_data body = None \<longrightarrow>
            industryAnalysis (fst (getIndustryAnalysis resp trendResps st)) = [])"
proof -
  have f: "fetch_json resp = Inr body"
    using assms by (simp add: fetch_json_def)
  show ?thesis
    by (auto simp: getIndustryAnalysis_def f Let_def tableRows_def getAllIndustryTrends_keeps)
qed

text \<open>
  Claim C7 on an example: a response with the four rows of the example page and the
  total 31, and a response whose \<^verbatim>\<open>data\<close> is not an array.
\<close>

theorem C7_witness:
  "ok 200
   \<and> industryAnalysis (fst (getIndustryAnalysis (Response 200 (Inr demo_analysis_body)) no_network initial_state))
       = demo_page
   \<and> length (tableRows (fst (getIndustryAnalysis (Response 200 (Inr demo_analysis_body)) no_network initial_state)))
       = 4
   \<and> totalIndustries (fst (getIndustryAnalysis (Response 200 (Inr demo_analysis_body)) no_network initial_state))
       = 31
   \<and> industryAnalysis (fst (getIndustryAnalysis (Response 200 (Inr no_rows_body)) no_network demo_state))
       = []"
proof -
  have o: "ok 200" by (simp add: ok_def)
  have d: "body_data demo_analysis_body = Some demo_page" "body_total demo_analysis_body = Some 31"
    "body_data no_rows_body = None" "length demo_page = 4"
    by (simp_all add: demo_analysis_body_def no_rows_body_def demo_page_def)
  show ?thesis
    using C7_analysis_rows [OF refl o, of demo_analysis_body no_network initial_state]
          C7_analysis_rows [OF refl o, of no_rows_body no_network demo_state] o d
    by simp
qed

subsection \<open>The treemap\<close>

lemma times_Num [simp]: "times (Num x) c = Num (x * c)"
  by (simp add: times_def)











lemma mock_names:
  "map node_name mockData = [mockBank, mockPharma, mockElectronics]"
  "map (\<lambda>node. length (node_children node)) mockData = [3, 3, 3]"
  by (simp_all add: mockData_def)

text \<open>
  Claim C4. Whenever \<^verbatim>\<open>updateHotmapChart\<close> has issued the hierarchy request and the
  request fails (the fetch is rejected, the status is not ok, or the body cannot be read)
  or the converted data is the empty list, the treemap is drawn from the static data of
  the page: three industries with three stocks each.
\<close>

theorem C4_mock_fallback:
  assumes "requests (updateHotmapChart resp st) = [HierarchyRequest]"
      and "(\<exists>message. fetch_json resp = Inl message)
           \<or> convertApiDataToChartFormat (getIndustryStockHierarchy resp) = Inr []"
  shows "rendered (updateHotmapChart resp st) = Some (convertData mockData)
       \<and> map node_name mockData = [mockBank, mockPharma, mockElectronics]
       \<and> map (\<lambda>node. length (node_children node)) mockData = [3, 3, 3]"
proof -
  from assms(1) have r: "marketHotmapRef st"
    by (auto simp: updateHotmapChart_def split: if_splits)
  from assms(2) have "convertApiDataToChartFormat (getIndustryStockHierarchy resp) = Inr []"
    by (auto simp: getIndustryStockHierarchy_def convertApiDataToChartFormat_def)
  with r have "rendered (updateHotmapChart resp st) = Some (convertData mockData)"
    by (simp add: updateHotmapChart_def)
  with mock_names show ?thesis by simp
qed

text \<open>
  Claim C4 on examples: a rejected fetch, a response with status 503, and a response
  with an empty list.
\<close>

theorem C4_witness:
  "requests (updateHotmapChart (Rejected ''Failed to fetch'') demo_state) = [HierarchyRequest]
   \<and> rendered (updateHotmapChart (Rejected ''Failed to fetch'') demo_state) = Some (convertData mockData)
   \<and> fetch_json (Response 503 (Inr (Single demo_industry))) = Inl ''HTTP error! status: 503''
   \<and> rendered (updateHotmapChart (Response 503 (Inr (Single demo_industry))) demo_state)
       = Some (convertData mockData)
   \<and> convertApiDataToChartFormat (getIndustryStockHierarchy (Response 200 (Inr (Wrapped [])))) = Inr []
   \<and> rendered (updateHotmapChart (Response 200 (Inr (Wrapped []))) demo_state) = Some (convertData mockData)"
proof -
  have q: "requests (updateHotmapChart resp demo_state) = [HierarchyRequest]" for resp
    by (simp add: updateHotmapChart_def demo_state_def Let_def split: sum.splits)
  have f1: "fetch_json (Rejected ''Failed to fetch'' :: hierarchy_body fetched) = Inl ''Failed to fetch''"
    by (simp add: fetch_json_def)
  have f2: "fetch_json (Response 503 (Inr (Single demo_industry))) = Inl ''HTTP error! status: 503''"
    by code_simp
  have f3: "convertApiDataToChartFormat (getIndustryStockHierarchy (Response 200 (Inr (Wrapped [])))) = Inr []"
    by code_simp
  show ?thesis
    using C4_mock_fallback [OF q, of "Rejected ''Failed to fetch''"]
          C4_mock_fallback [OF q, of "Response 503 (Inr (Single demo_industry))"]
          C4_mock_fallback [OF q, of "Response 200 (Inr (Wrapped []))"]
          q f1 f2 f3
    by simp
qed

subsection \<open>\<^verbatim>\<open>analyzeIndustry\<close>\<close>

lemma positiveRate_unbound:
  "resolve (function_scope name totalChange positiveDays negativeDays stockCount average volatility
            @ module_scope) ''positiveRate'' = Inl (ReferenceError ''positiveRate'')"
  by (simp add: resolve_def function_scope_def module_scope_def)

lemma analysisResult_fails:
  "analysisResult days name sts = Inl (ReferenceError ''positiveRate'')"
  by (simp add: analysisResult_def Let_def positiveRate_unbound)

text \<open>
  Claim C8. For an industry whose trend data is in \<^verbatim>\<open>allIndustryTrends\<close> with a
  \<^verbatim>\<open>stock_trends\<close> field, \<^verbatim>\<open>analyzeIndustry\<close> never stores a result of the analysis:
  building the result object evaluates the identifier \<^verbatim>\<open>positiveRate\<close>, which no scope
  of the function binds, so a ReferenceError is thrown; the \<^verbatim>\<open>catch\<close> branch stores the
  industry with the message that the analysis failed, and \<^verbatim>\<open>analysisLoading\<close> is false
  afterwards.
\<close>

theorem C8_analysis_always_fails:
  assumes "map_of (allIndustryTrends st) name = Some trend"
      and "stock_trends trend = Some sts"
  shows "analysisResult (daysToShow st) name sts = Inl (ReferenceError ''positiveRate'')
       \<and> industryAnalysisResult (analyzeIndustry name st) = Some (AnalysisError name analyzeFailed)
       \<and> \<not> analysisLoading (analyzeIndustry name st)"
  using assms by (simp add: analyzeIndustry_def Let_def analysisResult_fails)

text \<open>Claim C8 on the example page, for Bank.\<close>

theorem C8_witness:
  "map_of (allIndustryTrends demo_state) ''Bank''
     = Some \<lparr>trend_industry = ''Bank'', trend_stock_count = 2, stock_trends = Some bank_trends\<rparr>
   \<and> industryAnalysisResult (analyzeIndustry ''Bank'' demo_state) = Some (AnalysisError ''Bank'' analyzeFailed)
   \<and> \<not> analysisLoading (analyzeIndustry ''Bank'' demo_state)"
proof -
  have m: "map_of (allIndustryTrends demo_state) ''Bank''
     = Some \<lparr>trend_industry = ''Bank'', trend_stock_count = 2, stock_trends = Some bank_trends\<rparr>"
    by (simp add: demo_state_def)
  have s: "stock_trends \<lparr>trend_industry = ''Bank'', trend_stock_count = 2, stock_trends = Some bank_trends\<rparr>
             = Some bank_trends"
    by simp
  from C8_analysis_always_fails [OF m s] m show ?thesis
    by simp
qed

subsection \<open>Failed requests\<close>









end
